theory Spec2Isabelle
  imports Complex_Main
begin

section \<open>Metric instruments\<close>

text \<open>
  The application (\<^verbatim>\<open>src/app/app.js\<close>) creates its instruments with the
  \<^verbatim>\<open>prom-client\<close> package, whose source is not part of the repository. The
  Counter and the Histogram below are therefore written from section 4.2 of the
  specification; the request hook, the refresher, the start-up code and the
  route handlers further down are translated from \<^verbatim>\<open>app.js\<close>.
\<close>

type_synonym label_set = "string list"

datatype metric_error = NegativeDeltaError

subsection \<open>Counter\<close>

text \<open>
  Modelled from the spec: the Counter instrument of \<^verbatim>\<open>prom-client\<close> is missing
  from the sources. A counter maps each label set seen so far to the value of its
  series.
\<close>

type_synonym counter = "label_set \<Rightarrow> real option"

text \<open>
  Modelled from the spec: the value of a series of the missing Counter; a series
  that was never touched reads as 0.
\<close>

definition counter_value :: "counter \<Rightarrow> label_set \<Rightarrow> real" where
  "counter_value c ls = (case c ls of None \<Rightarrow> 0 | Some v \<Rightarrow> v)"

text \<open>
  Modelled from the spec: \<open>increment(labelSet, delta)\<close> fails with
  \<open>NegativeDeltaError\<close> if \<open>delta < 0\<close>. The call returns the error it
  raised, if any, together with the counter as the call leaves it.
\<close>

definition increment :: "counter \<Rightarrow> label_set \<Rightarrow> real \<Rightarrow> metric_error option \<times> counter" where
  "increment c ls delta =
     (if delta < 0 then (Some NegativeDeltaError, c)
      else (None, c(ls \<mapsto> counter_value c ls + delta)))"

text \<open>
  Modelled from the spec: \<^verbatim>\<open>counter.inc()\<close> and \<^verbatim>\<open>counter.labels(...).inc()\<close>
  of the missing Counter, as \<^verbatim>\<open>app.js\<close> calls them: \<open>increment\<close> with the default
  delta of 1, which cannot fail.
\<close>

definition inc :: "counter \<Rightarrow> label_set \<Rightarrow> counter" where
  "inc c ls = c(ls \<mapsto> counter_value c ls + 1)"

subsection \<open>Histogram\<close>

text \<open>
  Modelled from the spec: the Histogram instrument of \<^verbatim>\<open>prom-client\<close> is
  missing from the sources. Bucket boundaries are fixed when the histogram is
  declared, ascending, with an implicit \<open>+Inf\<close> bucket on top. A series holds the
  cumulative count of each bucket, a running sum and a running count.
\<close>

datatype bound = Le real | PlusInf

text \<open>Modelled from the spec: whether a boundary of the missing Histogram is at least a value.\<close>

fun bound_ge :: "bound \<Rightarrow> real \<Rightarrow> bool" where
  "bound_ge (Le b) v = (v \<le> b)"
| "bound_ge PlusInf v = True"

text \<open>
  Modelled from the spec: one series of the missing Histogram, with the cumulative
  count of each bucket.
\<close>

record histogram_series =
  buckets :: "(bound \<times> nat) list"
  h_sum :: real
  h_count :: nat

text \<open>
  Modelled from the spec: the series of the missing Histogram before its first
  observation, one bucket per declared boundary and \<open>+Inf\<close> on top.
\<close>

definition new_series :: "real list \<Rightarrow> histogram_series" where
  "new_series bs =
     \<lparr>buckets = map (\<lambda>b. (Le b, 0)) bs @ [(PlusInf, 0)], h_sum = 0, h_count = 0\<rparr>"

text \<open>
  Modelled from the spec: \<open>observe\<close> of the missing Histogram on one series
  increments the count of every bucket whose boundary is at least the value,
  increments the overall count and adds the value to the running sum.
\<close>

fun bump :: "real \<Rightarrow> (bound \<times> nat) list \<Rightarrow> (bound \<times> nat) list" where
  "bump v [] = []"
| "bump v ((b, c) # rest) = (b, if bound_ge b v then Suc c else c) # bump v rest"

text \<open>Modelled from the spec: one observation on a series of the missing Histogram.\<close>

definition observe_series :: "real \<Rightarrow> histogram_series \<Rightarrow> histogram_series" where
  "observe_series v h =
     \<lparr>buckets = bump v (buckets h), h_sum = h_sum h + v, h_count = Suc (h_count h)\<rparr>"

text \<open>
  Modelled from the spec: the missing Histogram, its boundaries and its series by
  label set.
\<close>

record 'l histogram =
  boundaries :: "real list"
  series :: "'l \<Rightarrow> histogram_series option"

text \<open>Modelled from the spec: the missing Histogram as declared, with no series yet.\<close>

definition new_histogram :: "real list \<Rightarrow> 'l histogram" where
  "new_histogram bs = \<lparr>boundaries = bs, series = (\<lambda>_. None)\<rparr>"

text \<open>
  Modelled from the spec: a series of the missing Histogram is created the first
  time its label set is observed.
\<close>

definition series_of :: "'l histogram \<Rightarrow> 'l \<Rightarrow> histogram_series" where
  "series_of H ls = (case series H ls of None \<Rightarrow> new_series (boundaries H) | Some h \<Rightarrow> h)"

text \<open>Modelled from the spec: \<open>observe(labelSet, value)\<close> of the missing Histogram.\<close>

definition observe :: "'l histogram \<Rightarrow> 'l \<Rightarrow> real \<Rightarrow> 'l histogram" where
  "observe H ls v = H\<lparr>series := (series H)(ls \<mapsto> observe_series v (series_of H ls))\<rparr>"

text \<open>Modelled from the spec: a sequence of observations on one label set.\<close>

fun observe_all :: "'l histogram \<Rightarrow> 'l \<Rightarrow> real list \<Rightarrow> 'l histogram" where
  "observe_all H ls [] = H"
| "observe_all H ls (v # vs) = observe_all (observe H ls v) ls vs"

section \<open>Request timing middleware\<close>

text \<open>
  \<^verbatim>\<open>app.use((req, res, next) => { const start = Date.now(); res.on('finish', ...); next(); })\<close>
  in \<^verbatim>\<open>app.js\<close>. Of a request the hook reads \<^verbatim>\<open>req.method\<close>,
  \<^verbatim>\<open>req.route?.path\<close> (absent when no route matched) and \<^verbatim>\<open>req.path\<close>;
  of the response it reads \<^verbatim>\<open>res.statusCode\<close>.
\<close>

record request =
  req_method :: string
  req_route_path :: "string option"
  req_path :: string

type_synonym http_labels = "string \<times> string \<times> nat"

text \<open>
  \<^verbatim>\<open>req.route?.path || req.path\<close>: JavaScript's \<^verbatim>\<open>||\<close> takes the right operand
  when the left one is undefined or the empty string.
\<close>

definition route_label :: "request \<Rightarrow> string" where
  "route_label req =
     (case req_route_path req of
        None \<Rightarrow> req_path req
      | Some p \<Rightarrow> if p = [] then req_path req else p)"

text \<open>
  The route patterns registered in \<^verbatim>\<open>app.js\<close> with \<^verbatim>\<open>app.get\<close> and
  \<^verbatim>\<open>app.put\<close>: when the router has matched a request, \<^verbatim>\<open>req.route.path\<close> is
  one of them.
\<close>

definition app_routes :: "string list" where
  "app_routes =
     [''/health'', ''/metrics'', ''/'', ''/admin/dashboard'', ''/staff/dashboard'',
      ''/api/memo-stats'', ''/api/memos'', ''/api/users/:userId/assignments'',
      ''/api/assignments/:assignmentId/accept'', ''/api/users/:userId/notifications'']"

text \<open>
  The \<^verbatim>\<open>'finish'\<close> listener. \<open>record_observation\<close> stands for
  \<^verbatim>\<open>httpRequestDuration.labels(...).observe(...)\<close>, a call into the metrics
  package that either raises (\<open>Inl\<close>) or returns the updated histogram. The
  listener has no \<^verbatim>\<open>try\<close> block: what the call raises leaves the listener.
  The state is the histogram paired with the lines written to the console; the
  result is the exception that left the listener, if any, and the state after it.
\<close>

definition on_finish ::
  "(http_labels \<Rightarrow> real \<Rightarrow> 'h \<Rightarrow> 'e + 'h) \<Rightarrow> int \<Rightarrow> request \<Rightarrow> nat \<Rightarrow> int
     \<Rightarrow> 'h \<times> string list \<Rightarrow> 'e option \<times> ('h \<times> string list)" where
  "on_finish record_observation start req statusCode end_time st =
     (let duration = real_of_int (end_time - start) / 1000
      in case record_observation (req_method req, route_label req, statusCode) duration (fst st) of
           Inl e \<Rightarrow> (Some e, st)
         | Inr h \<Rightarrow> (None, (h, snd st)))"

text \<open>
  One request through the middleware: \<open>now\<close> is what \<^verbatim>\<open>Date.now()\<close> returns
  when the request enters, \<^verbatim>\<open>next()\<close> hands it to the rest of the pipeline,
  which finishes the response with \<open>statusCode\<close> after \<open>elapsed\<close> milliseconds.
\<close>

definition timed_request ::
  "(http_labels \<Rightarrow> real \<Rightarrow> 'h \<Rightarrow> 'e + 'h) \<Rightarrow> int \<Rightarrow> request \<Rightarrow> nat \<Rightarrow> int
     \<Rightarrow> 'h \<times> string list \<Rightarrow> 'e option \<times> ('h \<times> string list)" where
  "timed_request record_observation now req statusCode elapsed st =
     (let start = now; end_time = now + elapsed
      in on_finish record_observation start req statusCode end_time st)"

text \<open>
  Modelled from the spec: \<^verbatim>\<open>httpRequestDuration.labels(...).observe(...)\<close> with the
  missing Histogram as section 4.2 of the specification describes it; its
  \<open>observe\<close> has no failure.
\<close>

definition httpRequestDuration_observe ::
  "http_labels \<Rightarrow> real \<Rightarrow> http_labels histogram \<Rightarrow> string + http_labels histogram" where
  "httpRequestDuration_observe ls v H = Inr (observe H ls v)"

section \<open>The application state\<close>

text \<open>
  The module-level state of \<^verbatim>\<open>app.js\<close> that the refresher, the start-up code
  and the \<^verbatim>\<open>/api\<close> handlers touch: the gauge \<^verbatim>\<open>activeMemos\<close>, the counters,
  whether \<^verbatim>\<open>pool\<close> has been assigned, the calls of \<^verbatim>\<open>updateMemoMetrics\<close> that
  wait for their query (\<open>in_flight\<close>), the due time of the interval timer in
  milliseconds, the due times of the retry timers, and what the process has done
  (console lines, listening, exited).
\<close>

record app =
  activeMemos :: real
  dbConnectionsTotal :: counter
  memoOperationsTotal :: counter
  console :: "string list"
  pool :: bool
  in_flight :: nat
  timer :: "nat option"
  retry_timers :: "nat list"
  listening :: bool
  exited :: bool

definition initial_app :: app where
  "initial_app =
     \<lparr>activeMemos = 0, dbConnectionsTotal = (\<lambda>_. None), memoOperationsTotal = (\<lambda>_. None),
      console = [], pool = False, in_flight = 0, timer = None, retry_timers = [],
      listening = False, exited = False\<rparr>"

text \<open>What a query handed to the database comes back with.\<close>

datatype 'r db_result = DbError string | DbOk 'r

text \<open>
  \<^verbatim>\<open>pool.execute(...)\<close>: while \<^verbatim>\<open>pool\<close> is still undefined the call itself raises
  a TypeError, which the enclosing \<^verbatim>\<open>try\<close> sees like a failed query.
\<close>

definition pool_execute :: "app \<Rightarrow> 'r db_result \<Rightarrow> 'r db_result" where
  "pool_execute s r = (if pool s then r else DbError ''TypeError: pool is undefined'')"

section \<open>Periodic refresher\<close>

text \<open>
  \<^verbatim>\<open>SELECT COUNT(*) as count FROM memos WHERE status = "sent"\<close> over the rows of
  the \<^verbatim>\<open>memos\<close> table (\<^verbatim>\<open>init.sql\<close>: status is one of draft, sent, archived).
  The answer is one row; a row is modelled by its \<^verbatim>\<open>count\<close> column.
\<close>

record memo =
  memo_id :: nat
  memo_status :: string

definition select_count_sent :: "memo list \<Rightarrow> nat list db_result" where
  "select_count_sent memos = DbOk [length (filter (\<lambda>m. memo_status m = ''sent'') memos)]"

text \<open>
  \<^verbatim>\<open>updateMemoMetrics\<close> is an async function: a call runs up to the
  \<^verbatim>\<open>await pool.execute(...)\<close> (the query is issued and the call is in flight) and
  resumes when the query has come back. There is no flag or check on entry.
\<close>

definition updateMemoMetrics_call :: "app \<Rightarrow> app" where
  "updateMemoMetrics_call s =
     (if pool s then s\<lparr>in_flight := Suc (in_flight s)\<rparr>
      else s\<lparr>console := console s @ [''Error updating memo metrics: TypeError: pool is undefined'']\<rparr>)"

definition updateMemoMetrics_resume :: "nat list db_result \<Rightarrow> app \<Rightarrow> app" where
  "updateMemoMetrics_resume r s =
     (if in_flight s = 0 then s
      else
        (let s1 = s\<lparr>in_flight := in_flight s - 1\<rparr>
         in case r of
              DbError e \<Rightarrow> s1\<lparr>console := console s1 @ [''Error updating memo metrics: '' @ e]\<rparr>
            | DbOk rows \<Rightarrow>
                (case rows of
                   [] \<Rightarrow> s1\<lparr>console := console s1 @ [''Error updating memo metrics: TypeError: rows[0] is undefined'']\<rparr>
                 | row # _ \<Rightarrow> s1\<lparr>activeMemos := real row\<rparr>)))"

text \<open>
  \<^verbatim>\<open>setInterval(updateMemoMetrics, 30000)\<close>: once started the timer is never
  cleared; each firing calls \<^verbatim>\<open>updateMemoMetrics\<close> and is due again 30000 ms
  later.
\<close>

definition refresh_interval :: nat where
  "refresh_interval = 30000"

definition tick :: "app \<Rightarrow> app" where
  "tick s =
     (case timer s of
        None \<Rightarrow> s
      | Some due \<Rightarrow> updateMemoMetrics_call (s\<lparr>timer := Some (due + refresh_interval)\<rparr>))"

section \<open>Start-up\<close>

text \<open>
  How one run of the \<^verbatim>\<open>try\<close> block of \<^verbatim>\<open>initializeDatabase\<close> goes:
  \<^verbatim>\<open>mysql.createPool\<close> raises, \<^verbatim>\<open>pool.getConnection()\<close> rejects,
  \<^verbatim>\<open>connection.ping()\<close> rejects, \<^verbatim>\<open>connection.release()\<close> raises, or every
  step succeeds.
\<close>

datatype conn_attempt =
  CreatePoolThrows string | GetConnectionRejects string | PingRejects string
  | ReleaseThrows string | Connected

text \<open>A block of statements either completes or raises; the state is kept either way.\<close>

datatype completion = Normal app | Throw string app

datatype promise = Resolved app | Rejected string app

definition initializeDatabase_try :: "conn_attempt \<Rightarrow> app \<Rightarrow> completion" where
  "initializeDatabase_try attempt s =
     (let created = s\<lparr>pool := True, console := console s @ [''Database connection pool created'']\<rparr>
      in case attempt of
           CreatePoolThrows e \<Rightarrow> Throw e s
         | GetConnectionRejects e \<Rightarrow> Throw e created
         | PingRejects e \<Rightarrow> Throw e created
         | ReleaseThrows e \<Rightarrow> Throw e created
         | Connected \<Rightarrow>
             Normal (updateMemoMetrics_call
               (created\<lparr>console := console created @ [''Database connection successful'']\<rparr>)))"

text \<open>
  The \<^verbatim>\<open>catch\<close> block logs the error and sets a timer that calls
  \<^verbatim>\<open>initializeDatabase\<close> again after 5000 ms; the async function then returns.
\<close>

definition retry_delay :: nat where
  "retry_delay = 5000"

definition initializeDatabase :: "conn_attempt \<Rightarrow> nat \<Rightarrow> app \<Rightarrow> promise" where
  "initializeDatabase attempt now s =
     (case initializeDatabase_try attempt s of
        Normal s1 \<Rightarrow> Resolved s1
      | Throw e s1 \<Rightarrow>
          Resolved (s1\<lparr>console := console s1 @ [''Database connection error: '' @ e],
                       retry_timers := retry_timers s1 @ [now + retry_delay]\<rparr>))"

text \<open>
  \<^verbatim>\<open>initializeDatabase().then(() => { app.listen(...); setInterval(updateMemoMetrics, 30000); })
  .catch(error => { console.error(...); process.exit(1); })\<close>.
  \<^verbatim>\<open>app.listen\<close> and \<^verbatim>\<open>setInterval\<close> return without raising. The lines
  that the callback of \<^verbatim>\<open>app.listen\<close> prints once the server listens are not
  recorded in \<open>console\<close>.
\<close>

definition startup :: "conn_attempt \<Rightarrow> nat \<Rightarrow> app \<Rightarrow> app" where
  "startup attempt now s =
     (case initializeDatabase attempt now s of
        Resolved s1 \<Rightarrow> s1\<lparr>listening := True, timer := Some (now + refresh_interval)\<rparr>
      | Rejected e s1 \<Rightarrow>
          s1\<lparr>console := console s1 @ [''Failed to start application: '' @ e], exited := True\<rparr>)"

text \<open>
  A retry timer set by the \<^verbatim>\<open>catch\<close> block fires: \<^verbatim>\<open>initializeDatabase\<close> runs
  again, and nothing waits for the promise it returns.
\<close>

definition retry_fire :: "conn_attempt \<Rightarrow> app \<Rightarrow> app" where
  "retry_fire attempt s =
     (case retry_timers s of
        [] \<Rightarrow> s
      | due # rest \<Rightarrow>
          (case initializeDatabase attempt due (s\<lparr>retry_timers := rest\<rparr>) of
             Resolved s1 \<Rightarrow> s1
           | Rejected e s1 \<Rightarrow> s1))"

section \<open>The /api handlers\<close>

text \<open>
  Each handler is an async function whose body is one \<^verbatim>\<open>try\<close>/\<^verbatim>\<open>catch\<close>. A
  handler is given what its queries come back with and returns the response it
  sends and the state it leaves. \<^verbatim>\<open>res.json\<close> and \<^verbatim>\<open>res.status\<close> return
  without raising. Rows are kept as the text of their JSON; the rows of a
  \<^verbatim>\<open>COUNT(*)\<close> query are kept as their \<^verbatim>\<open>count\<close> column.
\<close>

datatype body =
  Rows "string list" | Stats nat nat "string list" | Message string | ErrorBody string

datatype response = Response nat body

text \<open>\<^verbatim>\<open>app.get('/api/memo-stats', ...)\<close>: three queries, one after the other.\<close>

definition api_memo_stats ::
  "nat list db_result \<Rightarrow> nat list db_result \<Rightarrow> string list db_result \<Rightarrow> app \<Rightarrow> response \<times> app" where
  "api_memo_stats q1 q2 q3 s =
     (let s1 = s\<lparr>dbConnectionsTotal := inc (dbConnectionsTotal s) [],
                 memoOperationsTotal := inc (memoOperationsTotal s) [''get_stats'', ''attempt'']\<rparr>;
          caught = (\<lambda>e s2.
            (Response 500 (ErrorBody ''Database error''),
             s2\<lparr>memoOperationsTotal := inc (memoOperationsTotal s2) [''get_stats'', ''error''],
                console := console s2 @ [''Database error: '' @ e]\<rparr>))
      in case pool_execute s1 q1 of
           DbError e \<Rightarrow> caught e s1
         | DbOk todayMemos \<Rightarrow>
             (case pool_execute s1 q2 of
                DbError e \<Rightarrow> caught e s1
              | DbOk totalMemos \<Rightarrow>
                  (case pool_execute s1 q3 of
                     DbError e \<Rightarrow> caught e s1
                   | DbOk weeklyTrend \<Rightarrow>
                       (let s2 = s1\<lparr>memoOperationsTotal :=
                                      inc (memoOperationsTotal s1) [''get_stats'', ''success'']\<rparr>
                        in case todayMemos of
                             [] \<Rightarrow> caught ''TypeError: todayMemos[0] is undefined'' s2
                           | today_row # _ \<Rightarrow>
                               (case totalMemos of
                                  [] \<Rightarrow> caught ''TypeError: totalMemos[0] is undefined'' s2
                                | total_row # _ \<Rightarrow>
                                    (Response 200 (Stats today_row total_row weeklyTrend), s2))))))"

text \<open>\<^verbatim>\<open>app.get('/api/memos', ...)\<close>.\<close>

definition api_memos :: "string list db_result \<Rightarrow> app \<Rightarrow> response \<times> app" where
  "api_memos q s =
     (let s1 = s\<lparr>dbConnectionsTotal := inc (dbConnectionsTotal s) [],
                 memoOperationsTotal := inc (memoOperationsTotal s) [''get_all'', ''attempt'']\<rparr>
      in case pool_execute s1 q of
           DbError e \<Rightarrow>
             (Response 500 (ErrorBody ''Internal server error''),
              s1\<lparr>memoOperationsTotal := inc (memoOperationsTotal s1) [''get_all'', ''error''],
                 console := console s1 @ [''Error fetching memos: '' @ e]\<rparr>)
         | DbOk rows \<Rightarrow>
             (Response 200 (Rows rows),
              s1\<lparr>memoOperationsTotal := inc (memoOperationsTotal s1) [''get_all'', ''success'']\<rparr>))"

text \<open>\<^verbatim>\<open>app.get('/api/users/:userId/assignments', ...)\<close>.\<close>

definition api_assignments :: "string \<Rightarrow> string list db_result \<Rightarrow> app \<Rightarrow> response \<times> app" where
  "api_assignments userId q s =
     (let s1 = s\<lparr>dbConnectionsTotal := inc (dbConnectionsTotal s) [],
                 memoOperationsTotal := inc (memoOperationsTotal s) [''get_assignments'', ''attempt'']\<rparr>
      in case pool_execute s1 q of
           DbError e \<Rightarrow>
             (Response 500 (ErrorBody ''Internal server error''),
              s1\<lparr>memoOperationsTotal := inc (memoOperationsTotal s1) [''get_assignments'', ''error''],
                 console := console s1 @ [''Error fetching assignments: '' @ e]\<rparr>)
         | DbOk rows \<Rightarrow>
             (Response 200 (Rows rows),
              s1\<lparr>memoOperationsTotal := inc (memoOperationsTotal s1) [''get_assignments'', ''success'']\<rparr>))"

text \<open>
  \<^verbatim>\<open>app.put('/api/assignments/:assignmentId/accept', ...)\<close>: the query comes back
  with \<^verbatim>\<open>result.affectedRows\<close>. On success the response is sent and
  \<^verbatim>\<open>updateMemoMetrics()\<close> is called without \<^verbatim>\<open>await\<close>.
\<close>

definition api_accept :: "string \<Rightarrow> nat db_result \<Rightarrow> app \<Rightarrow> response \<times> app" where
  "api_accept assignmentId q s =
     (let s1 = s\<lparr>dbConnectionsTotal := inc (dbConnectionsTotal s) [],
                 memoOperationsTotal := inc (memoOperationsTotal s) [''accept_memo'', ''attempt'']\<rparr>
      in case pool_execute s1 q of
           DbError e \<Rightarrow>
             (Response 500 (ErrorBody ''Internal server error''),
              s1\<lparr>memoOperationsTotal := inc (memoOperationsTotal s1) [''accept_memo'', ''error''],
                 console := console s1 @ [''Error accepting memo: '' @ e]\<rparr>)
         | DbOk affectedRows \<Rightarrow>
             (if affectedRows > 0
              then (Response 200 (Message ''Memo accepted successfully''),
                    updateMemoMetrics_call
                      (s1\<lparr>memoOperationsTotal :=
                            inc (memoOperationsTotal s1) [''accept_memo'', ''success'']\<rparr>))
              else (Response 404 (ErrorBody ''Assignment not found''),
                    s1\<lparr>memoOperationsTotal :=
                          inc (memoOperationsTotal s1) [''accept_memo'', ''not_found'']\<rparr>)))"

text \<open>\<^verbatim>\<open>app.get('/api/users/:userId/notifications', ...)\<close>: no operation counter here.\<close>

definition api_notifications :: "string \<Rightarrow> string list db_result \<Rightarrow> app \<Rightarrow> response \<times> app" where
  "api_notifications userId q s =
     (let s1 = s\<lparr>dbConnectionsTotal := inc (dbConnectionsTotal s) []\<rparr>
      in case pool_execute s1 q of
           DbError e \<Rightarrow>
             (Response 500 (ErrorBody ''Internal server error''),
              s1\<lparr>console := console s1 @ [''Error fetching notifications: '' @ e]\<rparr>)
         | DbOk rows \<Rightarrow> (Response 200 (Rows rows), s1))"

text \<open>One invocation of an \<^verbatim>\<open>/api\<close> handler, with what its queries come back with.\<close>

datatype api_call =
  MemoStats "nat list db_result" "nat list db_result" "string list db_result"
  | Memos "string list db_result"
  | Assignments string "string list db_result"
  | Accept string "nat db_result"
  | Notifications string "string list db_result"

fun handle :: "api_call \<Rightarrow> app \<Rightarrow> response \<times> app" where
  "handle (MemoStats q1 q2 q3) s = api_memo_stats q1 q2 q3 s"
| "handle (Memos q) s = api_memos q s"
| "handle (Assignments userId q) s = api_assignments userId q s"
| "handle (Accept assignmentId q) s = api_accept assignmentId q s"
| "handle (Notifications userId q) s = api_notifications userId q s"

section \<open>Runs of the process\<close>

text \<open>
  After start-up the process reacts to events, one at a time: the interval timer
  fires, the query of a waiting \<^verbatim>\<open>updateMemoMetrics\<close> call comes back, a retry
  timer fires, or an \<^verbatim>\<open>/api\<close> request is handled.
\<close>

datatype event =
  Tick | QueryBack "nat list db_result" | Retry conn_attempt | Api api_call

fun step :: "app \<Rightarrow> event \<Rightarrow> app" where
  "step s Tick = tick s"
| "step s (QueryBack r) = updateMemoMetrics_resume r s"
| "step s (Retry attempt) = retry_fire attempt s"
| "step s (Api c) = snd (handle c s)"

definition run :: "app \<Rightarrow> event list \<Rightarrow> app" where
  "run s evs = foldl step s evs"

section \<open>Properties of the instruments\<close>

lemma counter_value_inc: "counter_value (inc c ls) ls' = (if ls' = ls then counter_value c ls + 1 else counter_value c ls')"
  by (simp add: inc_def counter_value_def)

lemma increment_default: "increment c ls 1 = (None, inc c ls)"
  by (simp add: increment_def inc_def)

lemma bump_map: "bump v bs = map (\<lambda>(b, c). (b, if bound_ge b v then c + 1 else c)) bs"
  by (induction bs) auto

lemma series_of_observe: "series_of (observe H ls v) ls = observe_series v (series_of H ls)"
  by (simp add: observe_def series_of_def)

lemma series_of_observe_other: "ls' \<noteq> ls \<Longrightarrow> series_of (observe H ls v) ls' = series_of H ls'"
  by (simp add: observe_def series_of_def split: option.split)

lemma observe_all_example:
  "buckets (series_of (observe_all (new_histogram [1, 5, 10]) ls [0.5, 3, 7, 20]) ls)
       = [(Le 1, 1), (Le 5, 2), (Le 10, 3), (PlusInf, 4)]
   \<and> h_sum (series_of (observe_all (new_histogram [1, 5, 10]) ls [0.5, 3, 7, 20]) ls) = 30.5
   \<and> h_count (series_of (observe_all (new_histogram [1, 5, 10]) ls [0.5, 3, 7, 20]) ls) = 4"
  by (simp add: observe_def series_of_def new_histogram_def new_series_def observe_series_def)

text \<open>
  C6. For every series of a Histogram, \<open>observe(labelSet, value)\<close> adds one to the
  cumulative count of every bucket whose boundary is at least the value (the
  \<open>+Inf\<close> bucket always), adds one to the overall count and adds the value to the
  running sum. With boundaries 1, 5, 10 and the observations 0.5, 3, 7, 20 the
  cumulative counts are 1, 2, 3 and 4 (for \<open>+Inf\<close>), the sum is 30.5 and the
  count is 4.
\<close>

theorem histogram_observe:
  "buckets (series_of (observe H ls v) ls)
       = map (\<lambda>(b, c). (b, if bound_ge b v then c + 1 else c)) (buckets (series_of H ls))
   \<and> h_count (series_of (observe H ls v) ls) = h_count (series_of H ls) + 1
   \<and> h_sum (series_of (observe H ls v) ls) = h_sum (series_of H ls) + v
   \<and> buckets (series_of (observe_all (new_histogram [1, 5, 10]) ls [0.5, 3, 7, 20]) ls)
       = [(Le 1, 1), (Le 5, 2), (Le 10, 3), (PlusInf, 4)]
   \<and> h_sum (series_of (observe_all (new_histogram [1, 5, 10]) ls [0.5, 3, 7, 20]) ls) = 30.5
   \<and> h_count (series_of (observe_all (new_histogram [1, 5, 10]) ls [0.5, 3, 7, 20]) ls) = 4"
  using observe_all_example [of ls]
  by (simp add: series_of_observe observe_series_def bump_map)

text \<open>
  C7. A Counter series never decreases: whatever the delta, the value of every
  series after \<open>increment\<close> is at least its value before. An \<open>increment\<close> with a
  delta below 0 fails with \<open>NegativeDeltaError\<close> and leaves the counter as it was.
\<close>

theorem counter_negative_delta:
  "(delta < 0 \<longrightarrow> increment c ls delta = (Some NegativeDeltaError, c))
   \<and> counter_value c ls' \<le> counter_value (snd (increment c ls delta)) ls'"
  by (simp add: increment_def counter_value_def)

theorem counter_negative_delta_witness:
  "(-1::real) < 0
   \<and> increment (\<lambda>_. None) [''get_all'', ''attempt''] (-1) = (Some NegativeDeltaError, (\<lambda>_. None))
   \<and> counter_value (\<lambda>_. None) [''get_all'', ''attempt'']
        \<le> counter_value (snd (increment (\<lambda>_. None) [''get_all'', ''attempt''] (-1)))
             [''get_all'', ''attempt'']"
  using counter_negative_delta
    [of "-1" "\<lambda>_. None" "[''get_all'', ''attempt'']" "[''get_all'', ''attempt'']"]
  by simp

section \<open>Properties of the request timing middleware\<close>

lemma app_routes_nonempty: "p \<in> set app_routes \<Longrightarrow> p \<noteq> []"
  by (auto simp: app_routes_def)

text \<open>
  C5. For every inbound request the start time is taken when the request enters
  the middleware, before it is handed on; when the response has been finished,
  with whatever status code, the elapsed time in seconds (milliseconds divided by
  1000) is observed into the duration histogram under the labels method, route
  and status code. The route label is the matched route pattern when the router
  resolved one of the application's routes, and the raw request path when it
  resolved none.
\<close>

theorem request_duration_observed:
  "timed_request httpRequestDuration_observe now req statusCode elapsed (H, out)
     = (None, (observe H (req_method req, route_label req, statusCode) (real_of_int elapsed / 1000), out))
   \<and> (\<forall>p. req_route_path req = Some p \<and> p \<in> set app_routes \<longrightarrow> route_label req = p)
   \<and> (req_route_path req = None \<longrightarrow> route_label req = req_path req)"
  using app_routes_nonempty
  by (auto simp: timed_request_def on_finish_def httpRequestDuration_observe_def route_label_def Let_def)

theorem request_duration_observed_witness:
  "req_route_path \<lparr>req_method = ''GET'', req_route_path = Some ''/api/users/:userId/assignments'',
        req_path = ''/api/users/2/assignments''\<rparr> = Some ''/api/users/:userId/assignments''
   \<and> ''/api/users/:userId/assignments'' \<in> set app_routes
   \<and> route_label \<lparr>req_method = ''GET'', req_route_path = Some ''/api/users/:userId/assignments'',
        req_path = ''/api/users/2/assignments''\<rparr> = ''/api/users/:userId/assignments''
   \<and> series_of (fst (snd (timed_request httpRequestDuration_observe 1000
          \<lparr>req_method = ''GET'', req_route_path = Some ''/api/users/:userId/assignments'',
            req_path = ''/api/users/2/assignments''\<rparr> 200 250 (new_histogram [1, 5, 10], []))))
          (''GET'', ''/api/users/:userId/assignments'', 200)
       = \<lparr>buckets = [(Le 1, 1), (Le 5, 1), (Le 10, 1), (PlusInf, 1)], h_sum = 0.25, h_count = 1\<rparr>
   \<and> req_route_path \<lparr>req_method = ''GET'', req_route_path = None, req_path = ''/favicon.ico''\<rparr> = None
   \<and> route_label \<lparr>req_method = ''GET'', req_route_path = None, req_path = ''/favicon.ico''\<rparr>
       = ''/favicon.ico''"
  using request_duration_observed
    [of 1000 "\<lparr>req_method = ''GET'', req_route_path = Some ''/api/users/:userId/assignments'',
            req_path = ''/api/users/2/assignments''\<rparr>" 200 250 "new_histogram [1, 5, 10]" "[]"]
    request_duration_observed
    [of 0 "\<lparr>req_method = ''GET'', req_route_path = None, req_path = ''/favicon.ico''\<rparr>" 404 3
        "new_histogram [1]" "[]"]
  by (simp add: app_routes_def observe_def series_of_def new_histogram_def new_series_def
        observe_series_def)


section \<open>Properties of the periodic refresher\<close>

lemmas refresher_defs = updateMemoMetrics_call_def updateMemoMetrics_resume_def tick_def
  refresh_interval_def retry_delay_def

lemmas startup_defs = startup_def initializeDatabase_def initializeDatabase_try_def retry_fire_def

lemmas handler_defs = api_memo_stats_def api_memos_def api_assignments_def api_accept_def
  api_notifications_def pool_execute_def

lemma run_Nil: "run s [] = s"
  by (simp add: run_def)

lemma run_Cons: "run s (ev # evs) = run (step s ev) evs"
  by (simp add: run_def)

lemma ticks_in_flight:
  "pool s \<Longrightarrow> timer s \<noteq> None \<Longrightarrow> in_flight (run s (replicate n Tick)) = in_flight s + n"
proof (induction n arbitrary: s)
  case 0
  then show ?case by (simp add: run_Nil)
next
  case (Suc n)
  from Suc.prems obtain due where due: "timer s = Some due" by auto
  have "pool (tick s)" "timer (tick s) \<noteq> None" "in_flight (tick s) = Suc (in_flight s)"
    using Suc.prems due by (simp_all add: refresher_defs)
  with Suc.IH [of "tick s"] show ?case
    by (simp add: run_Cons)
qed

lemma ticks_timer:
  "timer s = Some due \<Longrightarrow> timer (run s (replicate n Tick)) = Some (due + 30000 * n)"
proof (induction n arbitrary: s due)
  case 0
  then show ?case by (simp add: run_Nil)
next
  case (Suc n)
  have "timer (tick s) = Some (due + 30000)"
    using Suc.prems by (simp add: refresher_defs)
  from Suc.IH [OF this] show ?case
    by (simp add: run_Cons)
qed

lemma startup_Connected_state:
  "pool (startup Connected now s) \<and> timer (startup Connected now s) = Some (now + 30000)
   \<and> in_flight (startup Connected now s) = Suc (in_flight s)"
  by (simp add: startup_defs refresher_defs)

lemma startup_timer: "timer (startup attempt now s) = Some (now + 30000)"
  by (cases attempt) (simp_all add: startup_defs refresher_defs)

text \<open>
  The refresh started at start-up is still waiting for its query when the timer
  fires: the tick starts a second refresh, and two are in flight.
\<close>

theorem tick_overlaps:
  "in_flight (startup Connected 0 initial_app) = 1
   \<and> in_flight (run (startup Connected 0 initial_app) [Tick]) = 2"
  by (simp add: run_def startup_defs refresher_defs initial_app_def)

text \<open>
  C1, as the code has it. Every firing of the 30-second timer calls
  \<^verbatim>\<open>updateMemoMetrics\<close>, whether or not earlier refreshes are still in flight:
  there is no single-flight guard, no tick is skipped and nothing is queued. Once
  the pool has been created a tick issues its own query and raises the number of
  refreshes in flight by one, so refreshes overlap: after a connected start-up,
  \<open>n\<close> ticks with no query back leave \<open>n + 1\<close> refreshes in flight. If the
  creation of the pool raised, the call of the tick fails at once on the undefined
  pool, is logged, and leaves the number in flight as it was.
\<close>

theorem tick_starts_refresh_unguarded:
  "(timer s = Some due \<longrightarrow>
        tick s = updateMemoMetrics_call (s\<lparr>timer := Some (due + 30000)\<rparr>)
      \<and> in_flight (tick s) = (if pool s then Suc (in_flight s) else in_flight s)
      \<and> console (tick s)
          = (if pool s then console s
             else console s @ [''Error updating memo metrics: TypeError: pool is undefined'']))
   \<and> in_flight (run (startup Connected now initial_app) (replicate n Tick)) = Suc n"
proof -
  have "in_flight (run (startup Connected now initial_app) (replicate n Tick))
          = in_flight (startup Connected now initial_app) + n"
    by (rule ticks_in_flight) (simp_all add: startup_Connected_state)
  then show ?thesis
    by (simp add: startup_Connected_state) (simp add: refresher_defs initial_app_def)
qed

theorem tick_starts_refresh_unguarded_witness:
  "pool (startup Connected 0 initial_app) \<and> timer (startup Connected 0 initial_app) = Some 30000
   \<and> in_flight (startup Connected 0 initial_app) = 1
   \<and> in_flight (tick (startup Connected 0 initial_app)) = 2
   \<and> \<not> pool (startup (CreatePoolThrows ''invalid configuration'') 0 initial_app)
   \<and> timer (startup (CreatePoolThrows ''invalid configuration'') 0 initial_app) = Some 30000
   \<and> in_flight (startup (CreatePoolThrows ''invalid configuration'') 0 initial_app) = 0
   \<and> in_flight (tick (startup (CreatePoolThrows ''invalid configuration'') 0 initial_app)) = 0
   \<and> console (tick (startup (CreatePoolThrows ''invalid configuration'') 0 initial_app))
       = [''Database connection error: invalid configuration'',
          ''Error updating memo metrics: TypeError: pool is undefined'']"
  using tick_starts_refresh_unguarded [of "startup Connected 0 initial_app" 30000 0 0]
    tick_starts_refresh_unguarded
      [of "startup (CreatePoolThrows ''invalid configuration'') 0 initial_app" 30000 0 0]
  by (simp add: startup_defs refresher_defs initial_app_def)

text \<open>
  C3. When the query of a refresh fails, \<^verbatim>\<open>updateMemoMetrics\<close> logs the error and
  returns: the gauge keeps the value it had and the timer is untouched. So after a
  tick whose query fails the gauge still shows the old value, the error is on the
  console and the timer is due 30000 ms later; after the next tick, whose query
  succeeds with count \<open>n\<close>, the gauge shows \<open>n\<close> and the timer is due another
  30000 ms later.
\<close>

theorem refresh_failure_keeps_gauge:
  "activeMemos (updateMemoMetrics_resume (DbError e) s) = activeMemos s
   \<and> timer (updateMemoMetrics_resume (DbError e) s) = timer s
   \<and> (pool s \<and> timer s = Some due \<longrightarrow>
        activeMemos (run s [Tick, QueryBack (DbError e)]) = activeMemos s
      \<and> console (run s [Tick, QueryBack (DbError e)])
          = console s @ [''Error updating memo metrics: '' @ e]
      \<and> timer (run s [Tick, QueryBack (DbError e)]) = Some (due + 30000)
      \<and> activeMemos (run s [Tick, QueryBack (DbError e), Tick, QueryBack (DbOk [n])]) = real n
      \<and> timer (run s [Tick, QueryBack (DbError e), Tick, QueryBack (DbOk [n])]) = Some (due + 60000))"
  by (simp add: run_def refresher_defs Let_def)

theorem refresh_failure_keeps_gauge_witness:
  "pool (run (startup Connected 0 initial_app) [QueryBack (DbOk [7])])
   \<and> timer (run (startup Connected 0 initial_app) [QueryBack (DbOk [7])]) = Some 30000
   \<and> activeMemos (run (startup Connected 0 initial_app) [QueryBack (DbOk [7])]) = 7
   \<and> activeMemos (run (startup Connected 0 initial_app)
        [QueryBack (DbOk [7]), Tick, QueryBack (DbError ''ECONNRESET'')]) = 7
   \<and> console (run (startup Connected 0 initial_app)
        [QueryBack (DbOk [7]), Tick, QueryBack (DbError ''ECONNRESET'')])
      = [''Database connection pool created'', ''Database connection successful'',
         ''Error updating memo metrics: ECONNRESET'']
   \<and> activeMemos (run (startup Connected 0 initial_app)
        [QueryBack (DbOk [7]), Tick, QueryBack (DbError ''ECONNRESET''), Tick, QueryBack (DbOk [9])]) = 9
   \<and> timer (run (startup Connected 0 initial_app)
        [QueryBack (DbOk [7]), Tick, QueryBack (DbError ''ECONNRESET''), Tick, QueryBack (DbOk [9])])
      = Some 90000"
  using refresh_failure_keeps_gauge
    [of "''ECONNRESET''" "run (startup Connected 0 initial_app) [QueryBack (DbOk [7])]" 30000 9]
  by (simp add: run_def startup_defs refresher_defs initial_app_def Let_def)

text \<open>
  When the connection test fails at start-up, the server listens and the timer is
  set, but no refresh has been started: none is in flight, and a retry is due
  after 5000 ms.
\<close>

theorem startup_without_refresh:
  "in_flight (startup (GetConnectionRejects ''ECONNREFUSED'') 0 initial_app) = 0
   \<and> listening (startup (GetConnectionRejects ''ECONNREFUSED'') 0 initial_app)
   \<and> timer (startup (GetConnectionRejects ''ECONNREFUSED'') 0 initial_app) = Some 30000
   \<and> retry_timers (startup (GetConnectionRejects ''ECONNREFUSED'') 0 initial_app) = [5000]"
  by (simp add: startup_defs refresher_defs initial_app_def)

text \<open>
  C4, as the code has it. Start-up starts one refresh at once when its connection
  test succeeds; when the test fails it starts none and sets a retry 5000 ms
  ahead, and a retry whose connection test succeeds starts one. The timer set at
  start-up time \<open>now\<close> is due at \<open>now + 30000\<close> and again every 30000 ms, and
  each firing starts a refresh. A refresh whose query succeeds sets the gauge to
  exactly the number of memos whose status is \<open>sent\<close>.
\<close>

theorem refresher_schedule_and_value:
  "in_flight (startup Connected now s) = Suc (in_flight s)
   \<and> (attempt \<noteq> Connected \<longrightarrow>
        in_flight (startup attempt now s) = in_flight s
      \<and> activeMemos (startup attempt now s) = activeMemos s
      \<and> retry_timers (startup attempt now s) = retry_timers s @ [now + 5000])
   \<and> (retry_timers s = due # rest \<longrightarrow> in_flight (retry_fire Connected s) = Suc (in_flight s))
   \<and> timer (run (startup attempt now s) (replicate k Tick)) = Some (now + 30000 + 30000 * k)
   \<and> (pool s \<and> timer s = Some t \<longrightarrow> in_flight (tick s) = Suc (in_flight s))
   \<and> (0 < in_flight s \<longrightarrow>
        activeMemos (updateMemoMetrics_resume (select_count_sent memos) s)
          = real (length (filter (\<lambda>m. memo_status m = ''sent'') memos)))"
proof -
  have "timer (run (startup attempt now s) (replicate k Tick)) = Some (now + 30000 + 30000 * k)"
    by (rule ticks_timer) (rule startup_timer)
  moreover have "in_flight (startup Connected now s) = Suc (in_flight s)"
    by (simp add: startup_Connected_state)
  moreover have "attempt \<noteq> Connected \<longrightarrow>
        in_flight (startup attempt now s) = in_flight s
      \<and> activeMemos (startup attempt now s) = activeMemos s
      \<and> retry_timers (startup attempt now s) = retry_timers s @ [now + 5000]"
    by (cases attempt) (simp_all add: startup_defs refresher_defs)
  moreover have "retry_timers s = due # rest \<longrightarrow>
        in_flight (retry_fire Connected s) = Suc (in_flight s)"
    by (simp add: startup_defs refresher_defs)
  moreover have "pool s \<and> timer s = Some t \<longrightarrow> in_flight (tick s) = Suc (in_flight s)"
    by (simp add: refresher_defs)
  moreover have "0 < in_flight s \<longrightarrow>
        activeMemos (updateMemoMetrics_resume (select_count_sent memos) s)
          = real (length (filter (\<lambda>m. memo_status m = ''sent'') memos))"
    by (simp add: refresher_defs select_count_sent_def Let_def)
  ultimately show ?thesis by blast
qed

theorem refresher_schedule_and_value_witness:
  "in_flight (startup Connected 0 initial_app) = 1
   \<and> GetConnectionRejects ''ECONNREFUSED'' \<noteq> Connected
   \<and> in_flight (startup (GetConnectionRejects ''ECONNREFUSED'') 0 initial_app) = 0
   \<and> retry_timers (startup (GetConnectionRejects ''ECONNREFUSED'') 0 initial_app) = [5000]
   \<and> in_flight (retry_fire Connected (startup (GetConnectionRejects ''ECONNREFUSED'') 0 initial_app)) = 1
   \<and> timer (run (startup Connected 0 initial_app) [Tick, Tick]) = Some 90000
   \<and> pool (startup Connected 0 initial_app)
   \<and> timer (startup Connected 0 initial_app) = Some 30000
   \<and> in_flight (tick (startup Connected 0 initial_app)) = 2
   \<and> activeMemos (updateMemoMetrics_resume
        (select_count_sent
           [\<lparr>memo_id = 1, memo_status = ''sent''\<rparr>, \<lparr>memo_id = 2, memo_status = ''draft''\<rparr>,
            \<lparr>memo_id = 3, memo_status = ''sent''\<rparr>, \<lparr>memo_id = 4, memo_status = ''archived''\<rparr>])
        (startup Connected 0 initial_app)) = 2"
  using refresher_schedule_and_value
    [of 0 initial_app "GetConnectionRejects ''ECONNREFUSED''" 5000 "[]" "Suc (Suc 0)" 30000
        "[\<lparr>memo_id = 1, memo_status = ''sent''\<rparr>, \<lparr>memo_id = 2, memo_status = ''draft''\<rparr>,
          \<lparr>memo_id = 3, memo_status = ''sent''\<rparr>, \<lparr>memo_id = 4, memo_status = ''archived''\<rparr>]"]
    refresher_schedule_and_value
    [of 0 "startup (GetConnectionRejects ''ECONNREFUSED'') 0 initial_app" Connected 5000 "[]"
        "Suc (Suc 0)" 30000 "[]"]
    refresher_schedule_and_value
    [of 0 "startup Connected 0 initial_app" Connected 5000 "[]" "Suc (Suc 0)" 30000
        "[\<lparr>memo_id = 1, memo_status = ''sent''\<rparr>, \<lparr>memo_id = 2, memo_status = ''draft''\<rparr>,
          \<lparr>memo_id = 3, memo_status = ''sent''\<rparr>, \<lparr>memo_id = 4, memo_status = ''archived''\<rparr>]"]
  by (simp add: run_def startup_defs refresher_defs initial_app_def select_count_sent_def Let_def)

section \<open>Properties of start-up\<close>

lemma initializeDatabase_resolves: "\<exists>s1. initializeDatabase attempt now s = Resolved s1"
  by (cases attempt) (simp_all add: startup_defs)

lemma handle_exited: "exited (snd (handle c s)) = exited s"
  by (cases c)
     (simp_all add: handler_defs refresher_defs Let_def split: db_result.split list.split)

lemma step_exited: "exited (step s ev) = exited s"
proof (cases ev)
  case Tick
  then show ?thesis by (simp add: refresher_defs split: option.split)
next
  case (QueryBack r)
  then show ?thesis by (simp add: refresher_defs Let_def split: db_result.split list.split)
next
  case (Retry attempt)
  then show ?thesis
    by (cases attempt) (simp_all add: startup_defs refresher_defs split: list.split)
next
  case (Api c)
  then show ?thesis by (simp add: handle_exited)
qed

lemma run_exited: "exited (run s evs) = exited s"
  by (induction evs arbitrary: s) (simp_all add: run_Nil run_Cons step_exited)

lemma startup_exited: "exited (startup attempt now s) = exited s"
  by (cases attempt) (simp_all add: startup_defs refresher_defs)

lemma startup_listening: "listening (startup attempt now s)"
  by (cases attempt) (simp_all add: startup_defs refresher_defs)

lemma startup_retry:
  "retry_timers (startup attempt now s)
     = (if attempt = Connected then retry_timers s else retry_timers s @ [now + 5000])"
  by (cases attempt) (simp_all add: startup_defs refresher_defs)

text \<open>
  C8. \<^verbatim>\<open>initializeDatabase\<close> never rejects: however the pool creation and the
  connection test go, the promise it returns resolves, a failure being answered
  by a retry timer 5000 ms ahead. So start-up always ends with the server
  listening and the 30-second timer set, also when the connection failed, and
  the branch that exits the process is never taken, neither at start-up nor in
  any run of the process after it.
\<close>

theorem initializeDatabase_never_rejects:
  "(\<exists>s1. initializeDatabase attempt now s = Resolved s1)
   \<and> listening (startup attempt now s)
   \<and> timer (startup attempt now s) = Some (now + 30000)
   \<and> retry_timers (startup attempt now s)
       = (if attempt = Connected then retry_timers s else retry_timers s @ [now + 5000])
   \<and> exited (startup attempt now s) = exited s
   \<and> \<not> exited (run (startup attempt now initial_app) evs)"
proof -
  have "\<not> exited (run (startup attempt now initial_app) evs)"
    by (simp add: run_exited startup_exited initial_app_def)
  then show ?thesis
    using initializeDatabase_resolves [of attempt now s] startup_retry [of attempt now s]
    by (simp add: startup_listening startup_timer startup_exited)
qed

section \<open>Properties of the /api handlers\<close>

text \<open>
  C9. Whenever the accept endpoint succeeds (the pool exists and the UPDATE
  affects at least one row) it answers 200 and calls \<^verbatim>\<open>updateMemoMetrics\<close>: one
  more refresh is in flight than before, the interval timer is left as it was,
  and when the query of that refresh comes back the gauge is set to the current
  count.
\<close>

theorem accept_refreshes_gauge:
  "pool s \<and> 0 < affectedRows \<longrightarrow>
     fst (api_accept assignmentId (DbOk affectedRows) s)
       = Response 200 (Message ''Memo accepted successfully'')
   \<and> in_flight (snd (api_accept assignmentId (DbOk affectedRows) s)) = Suc (in_flight s)
   \<and> timer (snd (api_accept assignmentId (DbOk affectedRows) s)) = timer s
   \<and> activeMemos (updateMemoMetrics_resume (select_count_sent memos)
        (snd (api_accept assignmentId (DbOk affectedRows) s)))
       = real (length (filter (\<lambda>m. memo_status m = ''sent'') memos))"
  by (simp add: handler_defs refresher_defs select_count_sent_def Let_def)

theorem accept_refreshes_gauge_witness:
  "pool (run (startup Connected 0 initial_app) [QueryBack (DbOk [1])]) \<and> (0::nat) < 1
   \<and> in_flight (run (startup Connected 0 initial_app) [QueryBack (DbOk [1])]) = 0
   \<and> fst (api_accept ''3'' (DbOk 1) (run (startup Connected 0 initial_app) [QueryBack (DbOk [1])]))
       = Response 200 (Message ''Memo accepted successfully'')
   \<and> in_flight (snd (api_accept ''3'' (DbOk 1)
        (run (startup Connected 0 initial_app) [QueryBack (DbOk [1])]))) = 1
   \<and> activeMemos (updateMemoMetrics_resume
        (select_count_sent [\<lparr>memo_id = 1, memo_status = ''sent''\<rparr>, \<lparr>memo_id = 2, memo_status = ''sent''\<rparr>])
        (snd (api_accept ''3'' (DbOk 1)
          (run (startup Connected 0 initial_app) [QueryBack (DbOk [1])])))) = 2"
  using accept_refreshes_gauge
    [of "run (startup Connected 0 initial_app) [QueryBack (DbOk [1])]" 1 "''3''"
        "[\<lparr>memo_id = 1, memo_status = ''sent''\<rparr>, \<lparr>memo_id = 2, memo_status = ''sent''\<rparr>]"]
  by (simp add: run_def startup_defs refresher_defs handler_defs select_count_sent_def
        initial_app_def Let_def)

lemma handle_dbConnectionsTotal:
  "dbConnectionsTotal (snd (handle c s)) = inc (dbConnectionsTotal s) []"
  by (cases c)
     (simp_all add: handler_defs refresher_defs Let_def split: db_result.split list.split)

text \<open>
  C10. Every invocation of an \<^verbatim>\<open>/api\<close> handler (memo-stats, memos, assignments,
  accept, notifications) raises \<^verbatim>\<open>db_connections_total\<close> by exactly one, whatever
  its queries come back with. The counter counts handler invocations, not
  connections: start-up and its retries, which do take a connection from the
  pool, and the refresher leave it alone, and memo-stats with its three queries
  adds one.
\<close>

theorem dbConnectionsTotal_counts_invocations:
  "counter_value (dbConnectionsTotal (snd (handle c s))) []
     = counter_value (dbConnectionsTotal s) [] + 1
   \<and> dbConnectionsTotal (startup attempt now s) = dbConnectionsTotal s
   \<and> dbConnectionsTotal (retry_fire attempt s) = dbConnectionsTotal s
   \<and> dbConnectionsTotal (tick s) = dbConnectionsTotal s
   \<and> dbConnectionsTotal (updateMemoMetrics_resume r s) = dbConnectionsTotal s"
proof -
  have "dbConnectionsTotal (startup attempt now s) = dbConnectionsTotal s"
    by (cases attempt) (simp_all add: startup_defs refresher_defs)
  moreover have "dbConnectionsTotal (retry_fire attempt s) = dbConnectionsTotal s"
    by (cases attempt) (simp_all add: startup_defs refresher_defs split: list.split)
  moreover have "dbConnectionsTotal (tick s) = dbConnectionsTotal s"
    by (simp add: refresher_defs split: option.split)
  moreover have "dbConnectionsTotal (updateMemoMetrics_resume r s) = dbConnectionsTotal s"
    by (simp add: refresher_defs Let_def split: db_result.split list.split)
  ultimately show ?thesis
    by (simp add: handle_dbConnectionsTotal counter_value_inc)
qed

end
